theory Spec2Isabelle
  imports Complex_Main "HOL-Library.Log_Nat"
begin

section \<open>Data model of \<open>src/strategies/delivery.js\<close>\<close>

text \<open>
  The class \<open>DeliveryStrategy\<close> keeps its state in instance fields and reads two
  collaborators, \<open>beliefs\<close> and \<open>pathfinder\<close>, whose code is not part of the file. The
  fields become the record \<open>strategy\<close>, which every method takes and returns; the
  collaborators become records of the values and functions the methods read, passed as
  parameters and unchanged by a call. Every theorem therefore holds for any belief store
  and any pathfinder.

  Grid coordinates of the agent, of parcels and of path steps are integers. The
  coordinates of other agents are rationals, because the code truncates them with
  \<open>Math.floor\<close>. Rewards, thresholds and distances are JavaScript numbers, that is
  doubles; each is modelled by the rational it denotes, so comparisons are exact. The one
  operation of the file that rounds is the division of line 132: its result is the exact
  quotient rounded to the nearest double, or an infinity or \<open>NaN\<close>, and has the type
  \<open>jsnum\<close>. Path lengths are array lengths, and sums and differences of them are exact.
  Ids and move actions are strings; \<open>null\<close> is \<open>None\<close>.
  The field \<open>id\<close> of a parcel is \<open>parcel_id\<close> here, and the fields of an agent carry the
  prefix \<open>agent_\<close>.
\<close>

type_synonym agent_id = string
type_synonym parcel_id = string

record position =
  x :: int
  y :: int

record parcel_record = position +
  parcel_id :: parcel_id
  reward :: rat
  carriedBy :: "agent_id option"

record agent_record =
  agent_id :: agent_id
  agent_x :: rat
  agent_y :: rat

record beliefs =
  myId :: "agent_id option"
  myPosition :: "position option"
  agents :: "agent_record list option"
  availableParcels :: "parcel_record list"
  isDeliveryTile :: "int \<Rightarrow> int \<Rightarrow> bool"
  getClosestDeliveryTile :: "int \<Rightarrow> int \<Rightarrow> position option"
  calculateDistance :: "int \<Rightarrow> int \<Rightarrow> rat"

record pathfinder =
  findPath :: "int \<Rightarrow> int \<Rightarrow> int \<Rightarrow> int \<Rightarrow> position list"
  getActionToNextStep :: "int \<Rightarrow> int \<Rightarrow> int \<Rightarrow> int \<Rightarrow> string option"

text \<open>
  The constructor's fields. The three configuration constants come from
  \<open>utils.js\<close>, which is not in the sources, so they are fields with arbitrary values.
\<close>

record strategy =
  carriedParcels :: "parcel_record list"
  deliveryThreshold :: rat
  maxDetourDistance :: rat
  deliveryPath :: "position list"
  blockedTargetTile :: "position option"
  blockedCounter :: int
  BLOCKED_TIMEOUT :: int

text \<open>
  The object a call returns: \<open>{action: PUTDOWN}\<close>, \<open>{action: PICKUP, target: id}\<close> or
  \<open>{action: a}\<close> with the pathfinder's move \<open>a\<close>. A returned \<open>null\<close> is \<open>None\<close>.
\<close>

datatype action = PUTDOWN | PICKUP parcel_id | MOVE string

text \<open>Reading a property of \<open>null\<close> throws a \<open>TypeError\<close>.\<close>

datatype error = TypeError

text \<open>
  JavaScript's truthiness of a value that is \<open>null\<close> or a string: \<open>null\<close> and the
  empty string are falsy.
\<close>

definition truthy :: "string option \<Rightarrow> bool" where
  "truthy v = (case v of None \<Rightarrow> False | Some str \<Rightarrow> str \<noteq> [])"

text \<open>
  The value of a division: a double, given by the rational it denotes, an infinity or
  \<open>NaN\<close>.
\<close>

datatype jsnum = NegInfinity | Finite rat | PosInfinity | NaN

text \<open>
  Rounding to a double (IEEE 754 binary64, round to nearest, ties to even), as the
  language prescribes for \<open>/\<close>. \<open>binade q\<close> is the exponent \<open>e\<close> with
  \<open>2 ^ e \<le> |q| < 2 ^ (e + 1)\<close>. A double of that exponent is a multiple of
  \<open>2 ^ (e - 52)\<close>; below the exponent \<open>-1022\<close> the doubles are the multiples of
  \<open>2 ^ (-1074)\<close>; a rounded magnitude of \<open>2 ^ 1024\<close> or more is an infinity.
\<close>

definition binade :: "rat \<Rightarrow> int" where
  "binade q =
     (let (n, d) = quotient_of \<bar>q\<bar>;
          k = bitlen n - bitlen d
      in if 2 powi k \<le> \<bar>q\<bar> then k else k - 1)"

definition roundTiesToEven :: "rat \<Rightarrow> int" where
  "roundTiesToEven t =
     (let f = \<lfloor>t\<rfloor>; r = t - of_int f
      in if r < 1 / 2 then f
         else if 1 / 2 < r then f + 1
         else if even f then f else f + 1)"

definition toDouble :: "rat \<Rightarrow> jsnum" where
  "toDouble q =
     (if q = 0 then Finite 0
      else
        let e = max (binade q) (- 1022);
            m = roundTiesToEven (\<bar>q\<bar> / 2 powi (e - 52))
        in if 1024 \<le> e \<or> (e = 1023 \<and> 2 ^ 53 \<le> m)
           then (if 0 < q then PosInfinity else NegInfinity)
           else Finite ((if 0 < q then 1 else - 1) * of_int m * 2 powi (e - 52)))"

text \<open>
  The operator \<open>/\<close> on two finite numbers: a zero divisor gives an infinity or \<open>NaN\<close>,
  any other divisor the rounded quotient. \<open>js_gt\<close> is the operator \<open>>\<close> on the results:
  every comparison with \<open>NaN\<close> is false.
\<close>

definition js_div :: "rat \<Rightarrow> rat \<Rightarrow> jsnum" where
  "js_div a d =
     (if d = 0 then (if 0 < a then PosInfinity else if a < 0 then NegInfinity else NaN)
      else toDouble (a / d))"

fun js_gt :: "jsnum \<Rightarrow> jsnum \<Rightarrow> bool" where
  "js_gt NaN _ = False"
| "js_gt _ NaN = False"
| "js_gt (Finite a) (Finite c) = (c < a)"
| "js_gt NegInfinity _ = False"
| "js_gt _ NegInfinity = True"
| "js_gt _ PosInfinity = False"
| "js_gt PosInfinity _ = True"

section \<open>The methods\<close>

definition shouldDeliver :: "strategy \<Rightarrow> bool" where
  "shouldDeliver s = (length (carriedParcels s) > 0)"

definition isAtPosition :: "int \<Rightarrow> int \<Rightarrow> int \<Rightarrow> int \<Rightarrow> bool" where
  "isAtPosition x1 y1 x2 y2 = (x1 = x2 \<and> y1 = y2)"

definition isPathLeadingTo :: "position list \<Rightarrow> int \<Rightarrow> int \<Rightarrow> bool" where
  "isPathLeadingTo path targetX targetY =
     (if length path = 0 then False
      else let finalStep = path ! (length path - 1)
           in x finalStep = targetX \<and> y finalStep = targetY)"

definition isBlockedByOtherAgent :: "beliefs \<Rightarrow> int \<Rightarrow> int \<Rightarrow> bool" where
  "isBlockedByOtherAgent b tx ty =
     (if \<not> truthy (myId b) then False
      else case agents b of
        None \<Rightarrow> False
      | Some ags \<Rightarrow>
          list_ex (\<lambda>agent. Some (agent_id agent) \<noteq> myId b \<and>
                           \<lfloor>agent_x agent\<rfloor> = tx \<and> \<lfloor>agent_y agent\<rfloor> = ty) ags)"

text \<open>
  \<open>followDeliveryPath(currentX, currentY)\<close>: the returned action and the fields after
  the call.
\<close>

definition followDeliveryPath ::
  "strategy \<Rightarrow> beliefs \<Rightarrow> pathfinder \<Rightarrow> int \<Rightarrow> int \<Rightarrow> action option \<times> strategy" where
  "followDeliveryPath s b pf currentX currentY =
     (case deliveryPath s of
        [] \<Rightarrow> (None, s\<lparr>blockedTargetTile := None, blockedCounter := 0\<rparr>)
      | nextStep # rest \<Rightarrow>
          let targetX = x nextStep; targetY = y nextStep in
          if isBlockedByOtherAgent b targetX targetY then
            (if (case blockedTargetTile s of
                   None \<Rightarrow> False
                 | Some t \<Rightarrow> x t = targetX \<and> y t = targetY)
             then
               let s1 = s\<lparr>blockedCounter := blockedCounter s + 1\<rparr> in
               if BLOCKED_TIMEOUT s1 \<le> blockedCounter s1
               then (None, s1\<lparr>deliveryPath := [], blockedTargetTile := None,
                                blockedCounter := 0\<rparr>)
               else (None, s1)
             else
               (None, s\<lparr>blockedTargetTile := Some \<lparr>x = targetX, y = targetY\<rparr>,
                         blockedCounter := 1\<rparr>))
          else
            let s1 = s\<lparr>blockedTargetTile := None, blockedCounter := 0\<rparr>;
                act = getActionToNextStep pf currentX currentY targetX targetY
            in (case act of
                  None \<Rightarrow>
                    (None, s1\<lparr>deliveryPath := [], blockedTargetTile := None,
                               blockedCounter := 0\<rparr>)
                | Some a \<Rightarrow>
                    (if truthy (Some a)
                     then (Some (MOVE a), s1\<lparr>deliveryPath := rest\<rparr>)
                     else (None, s1\<lparr>deliveryPath := [], blockedTargetTile := None,
                                     blockedCounter := 0\<rparr>))))"

text \<open>
  The \<open>for\<close> loop of \<open>evaluateDetourParcels\<close> over \<open>potentialDetourParcels\<close>, with the
  two variables it updates, \<open>bestDetourParcel\<close> and \<open>bestDetourScore\<close>, as the
  accumulator. Each \<open>continue\<close> is a recursive call with the accumulator unchanged.
\<close>

fun detourLoop ::
  "pathfinder \<Rightarrow> rat \<Rightarrow> position \<Rightarrow> position \<Rightarrow> nat \<Rightarrow> parcel_record list \<Rightarrow>
   parcel_record option \<times> jsnum \<Rightarrow> parcel_record option \<times> jsnum" where
  "detourLoop pf maxD currentPos deliveryTile basePathLength [] best = best"
| "detourLoop pf maxD currentPos deliveryTile basePathLength (parcel # rest)
     (bestDetourParcel, bestDetourScore) =
     (let pathToParcel = findPath pf (x currentPos) (y currentPos) (x parcel) (y parcel) in
      if length pathToParcel = 0 \<and>
         \<not> isAtPosition (x currentPos) (y currentPos) (x parcel) (y parcel)
      then detourLoop pf maxD currentPos deliveryTile basePathLength rest
             (bestDetourParcel, bestDetourScore)
      else
        let pathFromParcelToDelivery =
              findPath pf (x parcel) (y parcel) (x deliveryTile) (y deliveryTile) in
        if length pathFromParcelToDelivery = 0 \<and>
           \<not> isAtPosition (x parcel) (y parcel) (x deliveryTile) (y deliveryTile)
        then detourLoop pf maxD currentPos deliveryTile basePathLength rest
               (bestDetourParcel, bestDetourScore)
        else
          let detourDistance = length pathToParcel;
              totalDistance = detourDistance + length pathFromParcelToDelivery;
              addedSteps = int totalDistance - int basePathLength
          in if of_int addedSteps \<le> maxD
             then
               let detourScore = js_div (reward parcel) (of_int (addedSteps + 1)) in
               if js_gt detourScore bestDetourScore
               then detourLoop pf maxD currentPos deliveryTile basePathLength rest
                      (Some parcel, detourScore)
               else detourLoop pf maxD currentPos deliveryTile basePathLength rest
                      (bestDetourParcel, bestDetourScore)
             else detourLoop pf maxD currentPos deliveryTile basePathLength rest
                    (bestDetourParcel, bestDetourScore))"

text \<open>The two \<open>filter\<close> calls that build \<open>potentialDetourParcels\<close>.\<close>

definition potentialDetourParcels :: "strategy \<Rightarrow> beliefs \<Rightarrow> parcel_record list" where
  "potentialDetourParcels s b =
     filter (\<lambda>p. calculateDistance b (x p) (y p) \<le> maxDetourDistance s)
       (filter (\<lambda>p. \<not> truthy (carriedBy p) \<and> deliveryThreshold s < reward p)
          (availableParcels b))"

text \<open>
  \<open>evaluateDetourParcels()\<close>. It reads \<open>currentPos.x\<close> without a check, so it throws
  when the position is unknown. The second component is the strategy's fields after the
  call: the method assigns to none of them.
\<close>

definition evaluateDetourParcels ::
  "strategy \<Rightarrow> beliefs \<Rightarrow> pathfinder \<Rightarrow> (error + parcel_record option) \<times> strategy" where
  "evaluateDetourParcels s b pf =
     (case myPosition b of
        None \<Rightarrow> (Inl TypeError, s)
      | Some currentPos \<Rightarrow>
          (case getClosestDeliveryTile b (x currentPos) (y currentPos) of
             None \<Rightarrow> (Inr None, s)
           | Some deliveryTile \<Rightarrow>
               let basePathLength =
                     length (findPath pf (x currentPos) (y currentPos)
                               (x deliveryTile) (y deliveryTile)) in
               if basePathLength = 0 \<and>
                  \<not> isAtPosition (x currentPos) (y currentPos) (x deliveryTile) (y deliveryTile)
               then (Inr None, s)
               else
                 (Inr (fst (detourLoop pf (maxDetourDistance s) currentPos deliveryTile
                              basePathLength (potentialDetourParcels s b)
                              (None, NegInfinity))), s)))"

text \<open>
  The lazy recomputation of lines 60-63 and 77-81: the route is replaced by a fresh
  \<open>findPath\<close> result when it is empty or does not lead to the target.
\<close>

definition ensurePathTo ::
  "strategy \<Rightarrow> pathfinder \<Rightarrow> position \<Rightarrow> int \<Rightarrow> int \<Rightarrow> strategy" where
  "ensurePathTo s pf currentPos targetX targetY =
     (if length (deliveryPath s) = 0 \<or> \<not> isPathLeadingTo (deliveryPath s) targetX targetY
      then s\<lparr>deliveryPath := findPath pf (x currentPos) (y currentPos) targetX targetY\<rparr>
      else s)"

definition returned :: "action option \<times> strategy \<Rightarrow> (error + action option) \<times> strategy" where
  "returned r = (Inr (fst r), snd r)"

definition getDeliveryAction ::
  "strategy \<Rightarrow> beliefs \<Rightarrow> pathfinder \<Rightarrow> (error + action option) \<times> strategy" where
  "getDeliveryAction s b pf =
     (if \<not> shouldDeliver s then (Inr None, s)
      else case myPosition b of
        None \<Rightarrow> (Inr None, s)
      | Some currentPos \<Rightarrow>
          if isDeliveryTile b (x currentPos) (y currentPos)
          then (Inr (Some PUTDOWN), s\<lparr>deliveryPath := []\<rparr>)
          else
            (case evaluateDetourParcels s b pf of
               (Inl e, s1) \<Rightarrow> (Inl e, s1)
             | (Inr (Some detourParcel), s1) \<Rightarrow>
                 if isAtPosition (x detourParcel) (y detourParcel) (x currentPos) (y currentPos)
                 then (Inr (Some (PICKUP (parcel_id detourParcel))), s1)
                 else returned
                        (followDeliveryPath
                           (ensurePathTo s1 pf currentPos (x detourParcel) (y detourParcel))
                           b pf (x currentPos) (y currentPos))
             | (Inr None, s1) \<Rightarrow>
                 (case getClosestDeliveryTile b (x currentPos) (y currentPos) of
                    None \<Rightarrow> (Inr None, s1\<lparr>deliveryPath := []\<rparr>)
                  | Some closestDeliveryTile \<Rightarrow>
                      returned
                        (followDeliveryPath
                           (ensurePathTo s1 pf currentPos
                              (x closestDeliveryTile) (y closestDeliveryTile))
                           b pf (x currentPos) (y currentPos)))))"

text \<open>
  \<open>updateCarriedParcels(allParcels)\<close>. The test is \<open>myId !== null\<close>, so an empty id
  still filters.
\<close>

definition updateCarriedParcels ::
  "strategy \<Rightarrow> beliefs \<Rightarrow> parcel_record list \<Rightarrow> strategy" where
  "updateCarriedParcels s b allParcels =
     (if myId b \<noteq> None then
        let s1 = s\<lparr>carriedParcels := filter (\<lambda>p. carriedBy p = myId b) allParcels\<rparr> in
        if length (carriedParcels s1) = 0 \<and> length (deliveryPath s1) > 0
        then s1\<lparr>deliveryPath := [], blockedTargetTile := None, blockedCounter := 0\<rparr>
        else s1
      else s\<lparr>carriedParcels := []\<rparr>)"

text \<open>
  \<open>n\<close> consecutive calls of \<open>followDeliveryPath\<close> while the beliefs and the agent's
  position stay the same, as in turns spent waiting: the fields after the last call.
\<close>

fun followTurns :: "nat \<Rightarrow> strategy \<Rightarrow> beliefs \<Rightarrow> pathfinder \<Rightarrow> int \<Rightarrow> int \<Rightarrow> strategy" where
  "followTurns 0 s b pf cx cy = s"
| "followTurns (Suc n) s b pf cx cy =
     followTurns n (snd (followDeliveryPath s b pf cx cy)) b pf cx cy"

section \<open>The detour candidates, in the words of the specification\<close>

text \<open>
  The extra steps of a detour over a parcel: the route to the parcel plus the route from
  the parcel to the delivery tile, minus the direct route.
\<close>

definition addedStepsVia :: "pathfinder \<Rightarrow> position \<Rightarrow> position \<Rightarrow> parcel_record \<Rightarrow> int" where
  "addedStepsVia pf cur dt p =
     (int (length (findPath pf (x cur) (y cur) (x p) (y p))) +
      int (length (findPath pf (x p) (y p) (x dt) (y dt)))) -
     int (length (findPath pf (x cur) (y cur) (x dt) (y dt)))"

text \<open>A route is reachable when it has a step or its two ends are the same tile.\<close>

definition reachable :: "pathfinder \<Rightarrow> int \<Rightarrow> int \<Rightarrow> int \<Rightarrow> int \<Rightarrow> bool" where
  "reachable pf x1 y1 x2 y2 = (findPath pf x1 y1 x2 y2 \<noteq> [] \<or> (x1 = x2 \<and> y1 = y2))"

definition detourCandidate ::
  "strategy \<Rightarrow> beliefs \<Rightarrow> pathfinder \<Rightarrow> position \<Rightarrow> position \<Rightarrow> parcel_record \<Rightarrow> bool" where
  "detourCandidate s b pf cur dt p =
     (\<not> truthy (carriedBy p) \<and>
      deliveryThreshold s < reward p \<and>
      calculateDistance b (x p) (y p) \<le> maxDetourDistance s \<and>
      reachable pf (x cur) (y cur) (x p) (y p) \<and>
      reachable pf (x p) (y p) (x dt) (y dt) \<and>
      of_int (addedStepsVia pf cur dt p) \<le> maxDetourDistance s)"

text \<open>
  The score of a candidate as the claim writes it, the exact quotient, and as the
  program computes it on line 132, with JavaScript's division.
\<close>

definition detourScore :: "pathfinder \<Rightarrow> position \<Rightarrow> position \<Rightarrow> parcel_record \<Rightarrow> rat" where
  "detourScore pf cur dt p = reward p / of_int (addedStepsVia pf cur dt p + 1)"

definition computedScore :: "pathfinder \<Rightarrow> position \<Rightarrow> position \<Rightarrow> parcel_record \<Rightarrow> jsnum" where
  "computedScore pf cur dt p = js_div (reward p) (of_int (addedStepsVia pf cur dt p + 1))"

text \<open>
  The route \<open>getDeliveryAction\<close> commits to before following it, in the words of the
  specification: computed anew when the current route is empty or its last step is not
  the target, and the current route otherwise.
\<close>

definition committedRoute ::
  "strategy \<Rightarrow> pathfinder \<Rightarrow> position \<Rightarrow> int \<Rightarrow> int \<Rightarrow> position list" where
  "committedRoute s pf cur tx ty =
     (if deliveryPath s = [] \<or> x (last (deliveryPath s)) \<noteq> tx \<or> y (last (deliveryPath s)) \<noteq> ty
      then findPath pf (x cur) (y cur) tx ty
      else deliveryPath s)"

section \<open>Auxiliary definitions\<close>

text \<open>The three tests the loop body makes on a parcel.\<close>

definition loopOk :: "pathfinder \<Rightarrow> rat \<Rightarrow> position \<Rightarrow> position \<Rightarrow> parcel_record \<Rightarrow> bool" where
  "loopOk pf maxD cur dt p =
     (reachable pf (x cur) (y cur) (x p) (y p) \<and>
      reachable pf (x p) (y p) (x dt) (y dt) \<and>
      of_int (addedStepsVia pf cur dt p) \<le> maxD)"

section \<open>A concrete world\<close>

text \<open>
  A corridor along the row \<open>y = 0\<close>: the route between two of its tiles is the straight
  line, and the only moves are one tile right or left. The agent \<open>me\<close> stands at
  \<open>(0, 0)\<close> and carries one parcel; the delivery tile is \<open>(5, 0)\<close>.
\<close>

definition tile :: "int \<Rightarrow> position" where
  "tile i = \<lparr>x = i, y = 0\<rparr>"

definition corridor :: pathfinder where
  "corridor =
     \<lparr>findPath = (\<lambda>x1 y1 x2 y2.
         if y1 = 0 \<and> y2 = 0
         then (if x1 \<le> x2 then map tile [x1 + 1..x2] else rev (map tile [x2..x1 - 1]))
         else []),
      getActionToNextStep = (\<lambda>cx cy nx ny.
         if ny = cy \<and> nx = cx + 1 then Some ''right''
         else if ny = cy \<and> nx = cx - 1 then Some ''left''
         else None)\<rparr>"

definition parcelMine :: parcel_record where
  "parcelMine = \<lparr>x = 0, y = 0, parcel_id = ''p0'', reward = 20, carriedBy = Some ''me''\<rparr>"

definition parcelA :: parcel_record where
  "parcelA = \<lparr>x = 1, y = 0, parcel_id = ''pA'', reward = 50, carriedBy = None\<rparr>"

definition parcelB :: parcel_record where
  "parcelB = \<lparr>x = 3, y = 0, parcel_id = ''pB'', reward = 50, carriedBy = None\<rparr>"

definition parcelC :: parcel_record where
  "parcelC = \<lparr>x = - 1, y = 0, parcel_id = ''pC'', reward = 90, carriedBy = None\<rparr>"

text \<open>
  Two parcels whose exact scores differ and whose computed scores are the same double:
  \<open>parcelS\<close> with the reward written \<open>0.3333333333333333\<close>, one step ahead on the way,
  and \<open>parcelT\<close> with the reward 1, one step behind the agent, a detour of two steps.
\<close>

definition parcelS :: parcel_record where
  "parcelS = \<lparr>x = 1, y = 0, parcel_id = ''pS'', reward = 6004799503160661 / 2 ^ 54,
               carriedBy = None\<rparr>"

definition parcelT :: parcel_record where
  "parcelT = \<lparr>x = - 1, y = 0, parcel_id = ''pT'', reward = 1, carriedBy = None\<rparr>"

definition detourParcels :: "parcel_record list" where
  "detourParcels = [parcelC, parcelA, parcelB, parcelMine]"

definition corridorBeliefs :: "parcel_record list \<Rightarrow> agent_record list \<Rightarrow> beliefs" where
  "corridorBeliefs ps ags =
     \<lparr>myId = Some ''me'',
      myPosition = Some (tile 0),
      agents = Some ags,
      availableParcels = ps,
      isDeliveryTile = (\<lambda>tx ty. tx = 5 \<and> ty = 0),
      getClosestDeliveryTile = (\<lambda>tx ty. Some (tile 5)),
      calculateDistance = (\<lambda>tx ty. of_int (\<bar>tx\<bar> + \<bar>ty\<bar>))\<rparr>"

definition corridorStrategy :: "position list \<Rightarrow> position option \<Rightarrow> int \<Rightarrow> strategy" where
  "corridorStrategy path blockedTile counter =
     \<lparr>carriedParcels = [parcelMine],
      deliveryThreshold = 10,
      maxDetourDistance = 5,
      deliveryPath = path,
      blockedTargetTile = blockedTile,
      blockedCounter = counter,
      BLOCKED_TIMEOUT = 3\<rparr>"

definition corridorPath :: "position list" where
  "corridorPath = [tile 1, tile 2, tile 3, tile 4, tile 5]"

definition otherAgent :: agent_record where
  "otherAgent = \<lparr>agent_id = ''other'', agent_x = 3 / 2, agent_y = 0\<rparr>"

section \<open>Auxiliary facts\<close>

lemma truthy_simps: "truthy None = False" "truthy (Some str) = (str \<noteq> [])"
  by (simp_all add: truthy_def)

lemma detourLoop_Cons:
  "detourLoop pf maxD cur dt (length (findPath pf (x cur) (y cur) (x dt) (y dt))) (p # ps) (bo, bs) =
   detourLoop pf maxD cur dt (length (findPath pf (x cur) (y cur) (x dt) (y dt))) ps
     (if loopOk pf maxD cur dt p \<and> js_gt (computedScore pf cur dt p) bs
      then (Some p, computedScore pf cur dt p)
      else (bo, bs))"
proof -
  have added: "int (length (findPath pf (x cur) (y cur) (x p) (y p)) +
                    length (findPath pf (x p) (y p) (x dt) (y dt))) -
               int (length (findPath pf (x cur) (y cur) (x dt) (y dt))) = addedStepsVia pf cur dt p"
    by (simp add: addedStepsVia_def)
  have r1: "(length (findPath pf (x cur) (y cur) (x p) (y p)) = 0 \<and>
             \<not> isAtPosition (x cur) (y cur) (x p) (y p)) = (\<not> reachable pf (x cur) (y cur) (x p) (y p))"
    by (simp add: reachable_def isAtPosition_def)
  have r2: "(length (findPath pf (x p) (y p) (x dt) (y dt)) = 0 \<and>
             \<not> isAtPosition (x p) (y p) (x dt) (y dt)) = (\<not> reachable pf (x p) (y p) (x dt) (y dt))"
    by (simp add: reachable_def isAtPosition_def)
  show ?thesis
    unfolding detourLoop.simps(2) Let_def added r1 r2 loopOk_def computedScore_def
    by (cases "reachable pf (x cur) (y cur) (x p) (y p)";
        cases "reachable pf (x p) (y p) (x dt) (y dt)";
        cases "of_int (addedStepsVia pf cur dt p) \<le> maxD";
        cases "js_gt (js_div (reward p) (of_int (addedStepsVia pf cur dt p + 1))) bs";
        simp only: if_True if_False simp_thms)
qed

declare detourLoop.simps(2) [simp del]

lemma detourLoop_take:
  "loopOk pf maxD cur dt p \<Longrightarrow> js_gt (computedScore pf cur dt p) bs \<Longrightarrow>
   detourLoop pf maxD cur dt (length (findPath pf (x cur) (y cur) (x dt) (y dt))) (p # ps) (bo, bs) =
   detourLoop pf maxD cur dt (length (findPath pf (x cur) (y cur) (x dt) (y dt))) ps
     (Some p, computedScore pf cur dt p)"
  by (simp add: detourLoop_Cons)

lemma detourLoop_skip:
  "\<not> (loopOk pf maxD cur dt p \<and> js_gt (computedScore pf cur dt p) bs) \<Longrightarrow>
   detourLoop pf maxD cur dt (length (findPath pf (x cur) (y cur) (x dt) (y dt))) (p # ps) (bo, bs) =
   detourLoop pf maxD cur dt (length (findPath pf (x cur) (y cur) (x dt) (y dt))) ps (bo, bs)"
  by (auto simp add: detourLoop_Cons)

text \<open>
  The rounding: \<open>binade\<close> brackets its argument between two powers of two, and a finite
  result of \<open>toDouble\<close> is a multiple of the unit of that exponent at most half a unit
  from the exact value.
\<close>

lemma roundTiesToEven_near: "\<bar>of_int (roundTiesToEven t) - t\<bar> \<le> 1 / 2"
proof -
  have fl: "of_int \<lfloor>t\<rfloor> \<le> t" "t < of_int \<lfloor>t\<rfloor> + 1" by linarith+
  show ?thesis
    unfolding roundTiesToEven_def Let_def using fl
    by (simp add: abs_if not_less) linarith
qed

lemma bitlen_powi_bounds:
  fixes n :: int
  assumes "0 < n"
  shows "(2::rat) powi (bitlen n - 1) \<le> of_int n" and "of_int n < (2::rat) powi bitlen n"
proof -
  have b: "1 \<le> bitlen n" using assms by (simp add: bitlen_alt_def)
  from bitlen_bounds[OF assms]
  have l: "2 ^ nat (bitlen n - 1) \<le> n" and u: "n < 2 ^ nat (bitlen n)" by auto
  have "(2::rat) powi (bitlen n - 1) = of_int (2 ^ nat (bitlen n - 1))"
    using b by (simp add: power_int_def)
  also have "\<dots> \<le> of_int n" using l by (simp only: of_int_le_iff)
  finally show "(2::rat) powi (bitlen n - 1) \<le> of_int n" .
  have "(of_int n :: rat) < of_int (2 ^ nat (bitlen n))" using u by (simp only: of_int_less_iff)
  also have "\<dots> = (2::rat) powi bitlen n"
    using b by (simp add: power_int_def)
  finally show "of_int n < (2::rat) powi bitlen n" .
qed

lemma rat_between_powers:
  fixes n d :: int
  assumes n: "0 < n" and d: "0 < d"
  shows "2 powi (bitlen n - bitlen d - 1) < (of_int n / of_int d :: rat)"
    and "(of_int n / of_int d :: rat) < 2 powi (bitlen n - bitlen d + 1)"
proof -
  note nb = bitlen_powi_bounds[OF n] and db = bitlen_powi_bounds[OF d]
  have dpos: "(0::rat) < of_int d" using d by simp
  have npos: "(0::rat) < of_int n" using n by simp
  have "bitlen n - bitlen d - 1 = bitlen n - 1 - bitlen d"
    by simp
  then have "(2::rat) powi (bitlen n - bitlen d - 1) = 2 powi (bitlen n - 1 - bitlen d)"
    by (rule arg_cong)
  also have "\<dots> = 2 powi (bitlen n - 1) / 2 powi bitlen d"
    by (rule power_int_diff) simp
  also have "\<dots> \<le> of_int n / 2 powi bitlen d"
    using nb(1) by (simp add: divide_right_mono)
  also have "\<dots> < of_int n / of_int d"
    using db(2) npos dpos by (simp add: divide_strict_left_mono)
  finally show "2 powi (bitlen n - bitlen d - 1) < (of_int n / of_int d :: rat)" .
  have "(of_int n / of_int d :: rat) < 2 powi bitlen n / of_int d"
    using nb(2) dpos by (simp add: divide_strict_right_mono)
  also have "\<dots> \<le> 2 powi bitlen n / 2 powi (bitlen d - 1)"
    using db(1) dpos by (intro divide_left_mono) (simp_all add: zero_less_mult_iff)
  also have "\<dots> = 2 powi (bitlen n - (bitlen d - 1))"
    by (rule power_int_diff[symmetric]) simp
  also have "bitlen n - (bitlen d - 1) = bitlen n - bitlen d + 1"
    by simp
  finally show "(of_int n / of_int d :: rat) < 2 powi (bitlen n - bitlen d + 1)" .
qed

lemma binade_bounds:
  assumes "q \<noteq> 0"
  shows "2 powi binade q \<le> \<bar>q\<bar>" and "\<bar>q\<bar> < 2 powi (binade q + 1)"
proof -
  obtain n d where nd: "quotient_of \<bar>q\<bar> = (n, d)" by (cases "quotient_of \<bar>q\<bar>")
  then have d: "0 < d" and q: "\<bar>q\<bar> = of_int n / of_int d"
    by (simp_all add: quotient_of_denom_pos quotient_of_div)
  have n: "0 < n"
  proof -
    have "0 < \<bar>q\<bar>" using assms by simp
    then show ?thesis using d unfolding q by (simp add: zero_less_divide_iff)
  qed
  note rb = rat_between_powers[OF n d]
  have e: "binade q = (if 2 powi (bitlen n - bitlen d) \<le> \<bar>q\<bar>
                       then bitlen n - bitlen d else bitlen n - bitlen d - 1)"
    by (simp add: binade_def nd Let_def)
  show "2 powi binade q \<le> \<bar>q\<bar>"
    using rb(1) unfolding e q by auto
  show "\<bar>q\<bar> < 2 powi (binade q + 1)"
    using rb(2) unfolding e q by (auto simp: not_le)
qed


lemma toDouble_within_half_unit:
  assumes "toDouble q = Finite v"
  shows "(\<exists>m::int. v = of_int m * 2 powi (max (binade q) (- 1022) - 52)) \<and>
         \<bar>v - q\<bar> \<le> 2 powi (max (binade q) (- 1022) - 52) / 2"
proof (cases "q = 0")
  case True
  with assms have "v = 0" by (simp add: toDouble_def)
  with True show ?thesis by (auto intro: exI[of _ 0])
next
  case False
  let ?u = "(2::rat) powi (max (binade q) (- 1022) - 52)"
  let ?m = "roundTiesToEven (\<bar>q\<bar> / ?u)"
  have u: "0 < ?u" by simp
  have v: "v = (if 0 < q then 1 else - 1) * of_int ?m * ?u"
    using assms False by (simp add: toDouble_def Let_def split: if_splits)
  have near: "\<bar>of_int ?m - \<bar>q\<bar> / ?u\<bar> \<le> 1 / 2"
    by (rule roundTiesToEven_near)
  have "\<bar>of_int ?m * ?u - \<bar>q\<bar>\<bar> = \<bar>of_int ?m - \<bar>q\<bar> / ?u\<bar> * ?u"
  proof -
    have "of_int ?m * ?u - \<bar>q\<bar> = (of_int ?m - \<bar>q\<bar> / ?u) * ?u"
      using u by (simp add: field_simps)
    then show ?thesis using u by (simp add: abs_mult)
  qed
  also have "\<dots> \<le> 1 / 2 * ?u"
    using near u by (intro mult_right_mono) simp_all
  finally have d: "\<bar>of_int ?m * ?u - \<bar>q\<bar>\<bar> \<le> ?u / 2" by simp
  have "\<bar>v - q\<bar> = \<bar>of_int ?m * ?u - \<bar>q\<bar>\<bar>"
  proof (cases "0 < q")
    case True
    then have "v - q = of_int ?m * ?u - \<bar>q\<bar>" unfolding v by simp
    then show ?thesis by simp
  next
    case neg: False
    then have "v - q = - (of_int ?m * ?u - \<bar>q\<bar>)" unfolding v by simp
    then show ?thesis by (simp only: abs_minus_cancel)
  qed
  with d have "\<bar>v - q\<bar> \<le> ?u / 2" by simp
  moreover have "\<exists>m::int. v = of_int m * ?u"
    unfolding v by (cases "0 < q") (auto intro: exI[of _ ?m] exI[of _ "- ?m"])
  ultimately show ?thesis by blast
qed

lemma toDouble_examples:
  "toDouble (1 / 3) = Finite (6004799503160661 / 2 ^ 54)"
  "toDouble (1 / 10) = Finite (3602879701896397 / 2 ^ 55)"
  "toDouble (2 ^ 53 + 1) = Finite (2 ^ 53)"
  "toDouble (2 ^ 53 + 3) = Finite (2 ^ 53 + 4)"
  "toDouble (- 50) = Finite (- 50)"
  by code_simp+

lemma js_gt_trans: "js_gt a c \<Longrightarrow> js_gt c d \<Longrightarrow> js_gt a d"
  by (cases a; cases c; cases d) auto

lemma js_gt_between: "js_gt a bs \<Longrightarrow> \<not> js_gt c bs \<Longrightarrow> js_gt a c \<or> c = NaN"
  by (cases a; cases c; cases bs) auto

text \<open>Soundness of the loop: a selected parcel was in the list and passed the loop's tests.\<close>

lemma detourLoop_sound:
  "detourLoop pf maxD cur dt (length (findPath pf (x cur) (y cur) (x dt) (y dt))) ps (bo, bs) = (Some p, rs)
   \<Longrightarrow> bo = Some p \<or> (p \<in> set ps \<and> loopOk pf maxD cur dt p)"
proof (induction ps arbitrary: bo bs)
  case Nil
  then show ?case by simp
next
  case (Cons q ps)
  show ?case
  proof (cases "loopOk pf maxD cur dt q \<and> js_gt (computedScore pf cur dt q) bs")
    case True
    with Cons.prems have "detourLoop pf maxD cur dt (length (findPath pf (x cur) (y cur) (x dt) (y dt))) ps
        (Some q, computedScore pf cur dt q) = (Some p, rs)"
      by (simp add: detourLoop_take)
    from Cons.IH[OF this] True show ?thesis by auto
  next
    case False
    with Cons.prems have "detourLoop pf maxD cur dt (length (findPath pf (x cur) (y cur) (x dt) (y dt))) ps
        (bo, bs) = (Some p, rs)"
      by (simp add: detourLoop_skip)
    from Cons.IH[OF this] show ?thesis by auto
  qed
qed

lemma detourLoop_none:
  "\<forall>c\<in>set ps. loopOk pf maxD cur dt c \<longrightarrow> \<not> js_gt (computedScore pf cur dt c) bs \<Longrightarrow>
   detourLoop pf maxD cur dt (length (findPath pf (x cur) (y cur) (x dt) (y dt))) ps (bo, bs) = (bo, bs)"
proof (induction ps)
  case Nil
  then show ?case by simp
next
  case (Cons q ps)
  then have "\<not> (loopOk pf maxD cur dt q \<and> js_gt (computedScore pf cur dt q) bs)" by simp
  then have "detourLoop pf maxD cur dt (length (findPath pf (x cur) (y cur) (x dt) (y dt))) (q # ps) (bo, bs)
           = detourLoop pf maxD cur dt (length (findPath pf (x cur) (y cur) (x dt) (y dt))) ps (bo, bs)"
    by (rule detourLoop_skip)
  with Cons show ?case by simp
qed

text \<open>
  The loop keeps the first parcel of the greatest computed score: when some parcel passes
  the tests with a score above the starting one, the parcels that pass split into those
  before the result, each of a smaller score or of the score \<open>NaN\<close>, the result, and those
  after it, none of a greater score.
\<close>

lemma detourLoop_some:
  assumes "\<exists>c\<in>set ps. loopOk pf maxD cur dt c \<and> js_gt (computedScore pf cur dt c) bs"
  shows "\<exists>pre p post.
           filter (loopOk pf maxD cur dt) ps = pre @ p # post \<and>
           detourLoop pf maxD cur dt (length (findPath pf (x cur) (y cur) (x dt) (y dt))) ps (bo, bs)
             = (Some p, computedScore pf cur dt p) \<and>
           js_gt (computedScore pf cur dt p) bs \<and>
           (\<forall>q\<in>set pre. js_gt (computedScore pf cur dt p) (computedScore pf cur dt q) \<or>
                          computedScore pf cur dt q = NaN) \<and>
           (\<forall>q\<in>set post. \<not> js_gt (computedScore pf cur dt q) (computedScore pf cur dt p))"
  using assms
proof (induction ps arbitrary: bo bs)
  case Nil
  then show ?case by simp
next
  case (Cons q ps)
  let ?L = "detourLoop pf maxD cur dt (length (findPath pf (x cur) (y cur) (x dt) (y dt)))"
  let ?ok = "loopOk pf maxD cur dt"
  let ?sc = "computedScore pf cur dt"
  show ?case
  proof (cases "?ok q \<and> js_gt (?sc q) bs")
    case True
    then have okq: "?ok q" and gtq: "js_gt (?sc q) bs" by auto
    have step: "?L (q # ps) (bo, bs) = ?L ps (Some q, ?sc q)"
      using True by (simp add: detourLoop_take)
    show ?thesis
    proof (cases "\<exists>c\<in>set ps. ?ok c \<and> js_gt (?sc c) (?sc q)")
      case True
      from Cons.IH[OF True, of "Some q"] obtain pre p post where
        f: "filter ?ok ps = pre @ p # post" and
        r: "?L ps (Some q, ?sc q) = (Some p, ?sc p)" and
        g: "js_gt (?sc p) (?sc q)" and
        a: "\<forall>c\<in>set pre. js_gt (?sc p) (?sc c) \<or> ?sc c = NaN" and
        z: "\<forall>c\<in>set post. \<not> js_gt (?sc c) (?sc p)"
        by blast
      have "filter ?ok (q # ps) = (q # pre) @ p # post" using okq f by simp
      moreover have "?L (q # ps) (bo, bs) = (Some p, ?sc p)" using step r by simp
      moreover have "js_gt (?sc p) bs" using g gtq by (rule js_gt_trans)
      moreover have "\<forall>c\<in>set (q # pre). js_gt (?sc p) (?sc c) \<or> ?sc c = NaN"
        using a g by simp
      ultimately show ?thesis using z by blast
    next
      case False
      then have none: "\<forall>c\<in>set ps. ?ok c \<longrightarrow> \<not> js_gt (?sc c) (?sc q)"
        by auto
      have "?L (q # ps) (bo, bs) = (Some q, ?sc q)"
        using step detourLoop_none[OF none] by simp
      moreover have "filter ?ok (q # ps) = [] @ q # filter ?ok ps" using okq by simp
      moreover have "\<forall>c\<in>set (filter ?ok ps). \<not> js_gt (?sc c) (?sc q)" using False by auto
      ultimately show ?thesis using gtq by (metis empty_iff empty_set)
    qed
  next
    case False
    have step: "?L (q # ps) (bo, bs) = ?L ps (bo, bs)"
      using False by (rule detourLoop_skip)
    from False Cons.prems have ex: "\<exists>c\<in>set ps. ?ok c \<and> js_gt (?sc c) bs" by auto
    from Cons.IH[OF ex, of bo] obtain pre p post where
      f: "filter ?ok ps = pre @ p # post" and
      r: "?L ps (bo, bs) = (Some p, ?sc p)" and
      g: "js_gt (?sc p) bs" and
      a: "\<forall>c\<in>set pre. js_gt (?sc p) (?sc c) \<or> ?sc c = NaN" and
      z: "\<forall>c\<in>set post. \<not> js_gt (?sc c) (?sc p)"
      by blast
    show ?thesis
    proof (cases "?ok q")
      case True
      with False have "\<not> js_gt (?sc q) bs" by simp
      with g have lt: "js_gt (?sc p) (?sc q) \<or> ?sc q = NaN" by (rule js_gt_between)
      have "filter ?ok (q # ps) = (q # pre) @ p # post" using True f by simp
      moreover have "\<forall>c\<in>set (q # pre). js_gt (?sc p) (?sc c) \<or> ?sc c = NaN"
        using a lt by simp
      ultimately show ?thesis using step r g z by metis
    next
      case False
      then have "filter ?ok (q # ps) = pre @ p # post" using f by simp
      then show ?thesis using step r g a z by metis
    qed
  qed
qed

lemma candidates_filter:
  "filter (loopOk pf (maxDetourDistance s) cur dt) (potentialDetourParcels s b) =
   filter (detourCandidate s b pf cur dt) (availableParcels b)"
  unfolding potentialDetourParcels_def filter_filter
  by (rule filter_cong) (auto simp: detourCandidate_def loopOk_def)

lemma evaluateDetourParcels_loop:
  assumes "myPosition b = Some cur"
      and "getClosestDeliveryTile b (x cur) (y cur) = Some dt"
      and "reachable pf (x cur) (y cur) (x dt) (y dt)"
  shows "evaluateDetourParcels s b pf =
           (Inr (fst (detourLoop pf (maxDetourDistance s) cur dt
                        (length (findPath pf (x cur) (y cur) (x dt) (y dt)))
                        (potentialDetourParcels s b) (None, NegInfinity))), s)"
  using assms by (auto simp: evaluateDetourParcels_def reachable_def isAtPosition_def Let_def)

section \<open>Detour evaluation\<close>

text \<open>
  Claim C1, as amended. Let the agent's position be known, let the nearest delivery tile
  exist and be reachable. Then \<open>evaluateDetourParcels\<close> returns without throwing, and a
  parcel it returns is one of \<open>availableParcels\<close> that is not carried, has a reward above
  \<open>deliveryThreshold\<close>, lies within \<open>maxDetourDistance\<close> by the heuristic distance, has
  both legs reachable and has \<open>addedSteps \<le> maxDetourDistance\<close>. Among these candidates,
  in the order of \<open>availableParcels\<close>, the parcel returned is the first of the greatest
  computed score, the score being \<open>reward / (addedSteps + 1)\<close> as JavaScript evaluates it
  (the quotient rounded to a double; an infinity or \<open>NaN\<close> when \<open>addedSteps + 1\<close> is zero):
  its score is above \<open>-Infinity\<close>, every candidate before it has a smaller score or the
  score \<open>NaN\<close>, and no candidate after it has a greater score. Nothing is returned exactly
  when no candidate has a computed score above \<open>-Infinity\<close>.
\<close>

theorem evaluateDetourParcels_best_computed_score:
  assumes pos: "myPosition b = Some cur"
      and tile: "getClosestDeliveryTile b (x cur) (y cur) = Some dt"
      and base: "reachable pf (x cur) (y cur) (x dt) (y dt)"
  shows "\<exists>r. evaluateDetourParcels s b pf = (Inr r, s) \<and>
           (\<forall>p. r = Some p \<longrightarrow> p \<in> set (availableParcels b) \<and> detourCandidate s b pf cur dt p) \<and>
           (case r of
              None \<Rightarrow>
                \<forall>q\<in>set (filter (detourCandidate s b pf cur dt) (availableParcels b)).
                  \<not> js_gt (computedScore pf cur dt q) NegInfinity
            | Some p \<Rightarrow>
                \<exists>pre post.
                  filter (detourCandidate s b pf cur dt) (availableParcels b) = pre @ p # post \<and>
                  js_gt (computedScore pf cur dt p) NegInfinity \<and>
                  (\<forall>q\<in>set pre. js_gt (computedScore pf cur dt p) (computedScore pf cur dt q) \<or>
                                 computedScore pf cur dt q = NaN) \<and>
                  (\<forall>q\<in>set post.
                     \<not> js_gt (computedScore pf cur dt q) (computedScore pf cur dt p)))"
proof -
  let ?ps = "potentialDetourParcels s b"
  let ?ok = "loopOk pf (maxDetourDistance s) cur dt"
  let ?sc = "computedScore pf cur dt"
  let ?cands = "filter (detourCandidate s b pf cur dt) (availableParcels b)"
  let ?res = "detourLoop pf (maxDetourDistance s) cur dt
                (length (findPath pf (x cur) (y cur) (x dt) (y dt))) ?ps (None, NegInfinity)"
  have cf: "filter ?ok ?ps = ?cands" by (rule candidates_filter)
  have ev: "evaluateDetourParcels s b pf = (Inr (fst ?res), s)"
    by (rule evaluateDetourParcels_loop[OF pos tile base])
  have sound: "p \<in> set (availableParcels b) \<and> detourCandidate s b pf cur dt p"
    if "fst ?res = Some p" for p
  proof -
    from that have "?res = (Some p, snd ?res)" by (metis prod.collapse)
    from detourLoop_sound[OF this] have "p \<in> set (filter ?ok ?ps)" by simp
    then show ?thesis unfolding cf by simp
  qed
  have best: "case fst ?res of
                None \<Rightarrow> \<forall>q\<in>set ?cands. \<not> js_gt (?sc q) NegInfinity
              | Some p \<Rightarrow>
                  \<exists>pre post. ?cands = pre @ p # post \<and> js_gt (?sc p) NegInfinity \<and>
                    (\<forall>q\<in>set pre. js_gt (?sc p) (?sc q) \<or> ?sc q = NaN) \<and>
                    (\<forall>q\<in>set post. \<not> js_gt (?sc q) (?sc p))"
  proof (cases "\<exists>c\<in>set ?ps. ?ok c \<and> js_gt (?sc c) NegInfinity")
    case True
    from detourLoop_some[OF True, of None] obtain pre p post where
      "filter ?ok ?ps = pre @ p # post" "?res = (Some p, ?sc p)"
      "js_gt (?sc p) NegInfinity"
      "\<forall>q\<in>set pre. js_gt (?sc p) (?sc q) \<or> ?sc q = NaN"
      "\<forall>q\<in>set post. \<not> js_gt (?sc q) (?sc p)"
      by blast
    then show ?thesis unfolding cf by auto
  next
    case False
    then have none: "\<forall>c\<in>set ?ps. ?ok c \<longrightarrow> \<not> js_gt (?sc c) NegInfinity"
      by blast
    from detourLoop_none[OF none] have "fst ?res = None" by simp
    moreover from none have "\<forall>q\<in>set (filter ?ok ?ps). \<not> js_gt (?sc q) NegInfinity"
      by simp
    ultimately show ?thesis unfolding cf by simp
  qed
  show ?thesis
    using ev sound best by blast
qed

theorem evaluateDetourParcels_best_computed_score_witness:
  "myPosition (corridorBeliefs detourParcels []) = Some (tile 0) \<and>
   getClosestDeliveryTile (corridorBeliefs detourParcels []) (x (tile 0)) (y (tile 0)) = Some (tile 5) \<and>
   reachable corridor (x (tile 0)) (y (tile 0)) (x (tile 5)) (y (tile 5)) \<and>
   evaluateDetourParcels (corridorStrategy [] None 0) (corridorBeliefs detourParcels []) corridor
     = (Inr (Some parcelA), corridorStrategy [] None 0) \<and>
   detourCandidate (corridorStrategy [] None 0) (corridorBeliefs detourParcels []) corridor
     (tile 0) (tile 5) parcelA \<and>
   map (computedScore corridor (tile 0) (tile 5)) [parcelC, parcelA, parcelB]
     = [Finite 30, Finite 50, Finite 50] \<and>
   (\<exists>pre post.
      filter (detourCandidate (corridorStrategy [] None 0) (corridorBeliefs detourParcels [])
                corridor (tile 0) (tile 5))
        (availableParcels (corridorBeliefs detourParcels [])) = pre @ parcelA # post \<and>
      js_gt (computedScore corridor (tile 0) (tile 5) parcelA) NegInfinity \<and>
      (\<forall>q\<in>set pre. js_gt (computedScore corridor (tile 0) (tile 5) parcelA)
                           (computedScore corridor (tile 0) (tile 5) q) \<or>
                     computedScore corridor (tile 0) (tile 5) q = NaN) \<and>
      (\<forall>q\<in>set post. \<not> js_gt (computedScore corridor (tile 0) (tile 5) q)
                             (computedScore corridor (tile 0) (tile 5) parcelA)))"
proof -
  let ?B = "corridorBeliefs detourParcels []"
  let ?S = "corridorStrategy [] None 0"
  let ?sc = "computedScore corridor (tile 0) (tile 5)"
  have pos: "myPosition ?B = Some (tile 0)"
    by (simp add: corridorBeliefs_def)
  have near: "getClosestDeliveryTile ?B (x (tile 0)) (y (tile 0)) = Some (tile 5)"
    by (simp add: corridorBeliefs_def)
  have base: "reachable corridor (x (tile 0)) (y (tile 0)) (x (tile 5)) (y (tile 5))"
    by code_simp
  have scores: "map ?sc [parcelC, parcelA, parcelB] = [Finite 30, Finite 50, Finite 50]"
    by code_simp
  have run: "evaluateDetourParcels ?S ?B corridor = (Inr (Some parcelA), ?S)"
    by code_simp
  from evaluateDetourParcels_best_computed_score[OF pos near base, where s = "?S"] run
  have "detourCandidate ?S ?B corridor (tile 0) (tile 5) parcelA"
   and "\<exists>pre post.
      filter (detourCandidate ?S ?B corridor (tile 0) (tile 5)) (availableParcels ?B)
        = pre @ parcelA # post \<and>
      js_gt (?sc parcelA) NegInfinity \<and>
      (\<forall>q\<in>set pre. js_gt (?sc parcelA) (?sc q) \<or> ?sc q = NaN) \<and>
      (\<forall>q\<in>set post. \<not> js_gt (?sc q) (?sc parcelA))"
    by auto
  with pos near base scores run show ?thesis by blast
qed

text \<open>
  The claim as written, with the exact quotient, fails where two exact scores round to
  the same double. The reward of \<open>parcelS\<close> is the double that \<open>0.3333333333333333\<close>
  denotes. With the threshold 0, \<open>parcelS\<close> and \<open>parcelT\<close> are both candidates, of the
  exact scores \<open>reward parcelS / 1\<close> and \<open>1 / 3\<close>, the second the greater; both computed
  scores are the double of \<open>parcelS\<close>, so line 134 finds the second not greater than the
  first and the call returns \<open>parcelS\<close>.
\<close>

theorem evaluateDetourParcels_rounding_tie:
  "toDouble (3333333333333333 / 10 ^ 16) = Finite (reward parcelS) \<and>
   myPosition (corridorBeliefs [parcelS, parcelT] []) = Some (tile 0) \<and>
   getClosestDeliveryTile (corridorBeliefs [parcelS, parcelT] []) (x (tile 0)) (y (tile 0))
     = Some (tile 5) \<and>
   reachable corridor (x (tile 0)) (y (tile 0)) (x (tile 5)) (y (tile 5)) \<and>
   detourCandidate ((corridorStrategy [] None 0)\<lparr>deliveryThreshold := 0\<rparr>)
     (corridorBeliefs [parcelS, parcelT] []) corridor (tile 0) (tile 5) parcelS \<and>
   detourCandidate ((corridorStrategy [] None 0)\<lparr>deliveryThreshold := 0\<rparr>)
     (corridorBeliefs [parcelS, parcelT] []) corridor (tile 0) (tile 5) parcelT \<and>
   addedStepsVia corridor (tile 0) (tile 5) parcelS = 0 \<and>
   addedStepsVia corridor (tile 0) (tile 5) parcelT = 2 \<and>
   detourScore corridor (tile 0) (tile 5) parcelS < detourScore corridor (tile 0) (tile 5) parcelT \<and>
   computedScore corridor (tile 0) (tile 5) parcelS = Finite (reward parcelS) \<and>
   computedScore corridor (tile 0) (tile 5) parcelT = Finite (reward parcelS) \<and>
   fst (evaluateDetourParcels ((corridorStrategy [] None 0)\<lparr>deliveryThreshold := 0\<rparr>)
          (corridorBeliefs [parcelS, parcelT] []) corridor) = Inr (Some parcelS)"
  by code_simp

section \<open>Following the route and the blocking counter\<close>

text \<open>
  Claim C2. A call of \<open>followDeliveryPath\<close> on a non-empty route whose first step is
  occupied by another agent and is the recorded \<open>blockedTargetTile\<close> increments the
  counter and returns no action. When the incremented counter has reached
  \<open>BLOCKED_TIMEOUT\<close>, that same call clears the route and resets the block state to
  \<open>(null, 0)\<close>; otherwise the route and the recorded tile are unchanged and the counter is
  one more than before.
\<close>

theorem followDeliveryPath_same_tile_blocked:
  assumes "deliveryPath s = step # rest"
      and "isBlockedByOtherAgent b (x step) (y step)"
      and "blockedTargetTile s = Some t"
      and "x t = x step" and "y t = y step"
  shows "followDeliveryPath s b pf cx cy =
           (if BLOCKED_TIMEOUT s \<le> blockedCounter s + 1
            then (None, s\<lparr>deliveryPath := [], blockedTargetTile := None, blockedCounter := 0\<rparr>)
            else (None, s\<lparr>blockedCounter := blockedCounter s + 1\<rparr>))"
  using assms by (simp add: followDeliveryPath_def Let_def)

theorem followDeliveryPath_same_tile_blocked_witness:
  "deliveryPath (corridorStrategy corridorPath (Some (tile 1)) 1) = tile 1 # tl corridorPath \<and>
   isBlockedByOtherAgent (corridorBeliefs [parcelMine] [otherAgent]) (x (tile 1)) (y (tile 1)) \<and>
   blockedTargetTile (corridorStrategy corridorPath (Some (tile 1)) 1) = Some (tile 1) \<and>
   followDeliveryPath (corridorStrategy corridorPath (Some (tile 1)) 1)
       (corridorBeliefs [parcelMine] [otherAgent]) corridor 0 0
     = (None, corridorStrategy corridorPath (Some (tile 1)) 2) \<and>
   followDeliveryPath (corridorStrategy corridorPath (Some (tile 1)) 2)
       (corridorBeliefs [parcelMine] [otherAgent]) corridor 0 0
     = (None, corridorStrategy [] None 0)"
proof -
  let ?B = "corridorBeliefs [parcelMine] [otherAgent]"
  have path: "deliveryPath (corridorStrategy corridorPath (Some (tile 1)) c) = tile 1 # tl corridorPath" for c
    by (simp add: corridorStrategy_def corridorPath_def)
  have blocked: "isBlockedByOtherAgent ?B (x (tile 1)) (y (tile 1))"
    by code_simp
  have rec: "blockedTargetTile (corridorStrategy corridorPath (Some (tile 1)) c) = Some (tile 1)" for c
    by (simp add: corridorStrategy_def)
  have "followDeliveryPath (corridorStrategy corridorPath (Some (tile 1)) 1) ?B corridor 0 0
          = (None, corridorStrategy corridorPath (Some (tile 1)) 2)"
    using followDeliveryPath_same_tile_blocked[OF path blocked rec refl refl, of 1 corridor 0 0]
    by (simp add: corridorStrategy_def)
  moreover have "followDeliveryPath (corridorStrategy corridorPath (Some (tile 1)) 2) ?B corridor 0 0
          = (None, corridorStrategy [] None 0)"
    using followDeliveryPath_same_tile_blocked[OF path blocked rec refl refl, of 2 corridor 0 0]
    by (simp add: corridorStrategy_def)
  ultimately show ?thesis using path blocked rec by blast
qed

text \<open>
  Over consecutive turns on the same blocked tile: as long as the counter stays below
  \<open>BLOCKED_TIMEOUT\<close> the calls only count, and the call that brings it to
  \<open>BLOCKED_TIMEOUT\<close> is the one that clears the route.
\<close>

lemma blocked_turns_before_timeout:
  assumes "deliveryPath s = step # rest"
      and "isBlockedByOtherAgent b (x step) (y step)"
      and "blockedTargetTile s = Some t"
      and "x t = x step" and "y t = y step"
      and "blockedCounter s + int n < BLOCKED_TIMEOUT s"
  shows "followTurns n s b pf cx cy = s\<lparr>blockedCounter := blockedCounter s + int n\<rparr>"
  using assms
proof (induction n arbitrary: s)
  case 0
  then show ?case by simp
next
  case (Suc n)
  let ?s1 = "s\<lparr>blockedCounter := blockedCounter s + 1\<rparr>"
  have one: "snd (followDeliveryPath s b pf cx cy) = ?s1"
    using Suc.prems by (simp add: followDeliveryPath_def Let_def)
  have "followTurns n ?s1 b pf cx cy = ?s1\<lparr>blockedCounter := blockedCounter ?s1 + int n\<rparr>"
    using Suc.prems by (intro Suc.IH) simp_all
  then show ?case using one by (simp add: add.assoc add.commute)
qed

lemma blocked_turn_of_timeout:
  assumes "deliveryPath s = step # rest"
      and "isBlockedByOtherAgent b (x step) (y step)"
      and "blockedTargetTile s = Some t"
      and "x t = x step" and "y t = y step"
      and "blockedCounter s + int n + 1 = BLOCKED_TIMEOUT s"
  shows "followDeliveryPath (followTurns n s b pf cx cy) b pf cx cy =
           (None, s\<lparr>deliveryPath := [], blockedTargetTile := None, blockedCounter := 0\<rparr>)"
proof -
  have "followTurns n s b pf cx cy = s\<lparr>blockedCounter := blockedCounter s + int n\<rparr>"
    using assms by (intro blocked_turns_before_timeout) simp_all
  then show ?thesis
    using assms by (simp add: followDeliveryPath_def Let_def)
qed

text \<open>
  Claim C6. A call of \<open>followDeliveryPath\<close> whose first step is occupied by another agent,
  when no tile is recorded or the recorded tile is another one, records that step as
  \<open>blockedTargetTile\<close>, sets \<open>blockedCounter\<close> to 1 whatever it was before, leaves the
  route unchanged and returns no action.
\<close>

theorem followDeliveryPath_new_tile_blocked:
  assumes "deliveryPath s = step # rest"
      and "isBlockedByOtherAgent b (x step) (y step)"
      and "blockedTargetTile s = None \<or>
           (\<exists>t. blockedTargetTile s = Some t \<and> (x t \<noteq> x step \<or> y t \<noteq> y step))"
  shows "followDeliveryPath s b pf cx cy =
           (None, s\<lparr>blockedTargetTile := Some \<lparr>x = x step, y = y step\<rparr>, blockedCounter := 1\<rparr>)"
  using assms by (auto simp: followDeliveryPath_def Let_def)

theorem followDeliveryPath_new_tile_blocked_witness:
  "deliveryPath (corridorStrategy corridorPath None 0) = tile 1 # tl corridorPath \<and>
   deliveryPath (corridorStrategy corridorPath (Some (tile 4)) 2) = tile 1 # tl corridorPath \<and>
   isBlockedByOtherAgent (corridorBeliefs [parcelMine] [otherAgent]) (x (tile 1)) (y (tile 1)) \<and>
   blockedTargetTile (corridorStrategy corridorPath None 0) = None \<and>
   blockedTargetTile (corridorStrategy corridorPath (Some (tile 4)) 2) = Some (tile 4) \<and>
   x (tile 4) \<noteq> x (tile 1) \<and>
   followDeliveryPath (corridorStrategy corridorPath None 0)
       (corridorBeliefs [parcelMine] [otherAgent]) corridor 0 0
     = (None, corridorStrategy corridorPath (Some (tile 1)) 1) \<and>
   followDeliveryPath (corridorStrategy corridorPath (Some (tile 4)) 2)
       (corridorBeliefs [parcelMine] [otherAgent]) corridor 0 0
     = (None, corridorStrategy corridorPath (Some (tile 1)) 1)"
proof -
  let ?B = "corridorBeliefs [parcelMine] [otherAgent]"
  have path: "deliveryPath (corridorStrategy corridorPath t c) = tile 1 # tl corridorPath" for t c
    by (simp add: corridorStrategy_def corridorPath_def)
  have blocked: "isBlockedByOtherAgent ?B (x (tile 1)) (y (tile 1))"
    by code_simp
  have fresh: "blockedTargetTile (corridorStrategy corridorPath None 0) = None"
    by (simp add: corridorStrategy_def)
  have other: "blockedTargetTile (corridorStrategy corridorPath (Some (tile 4)) 2) = Some (tile 4)"
    by (simp add: corridorStrategy_def)
  have differs: "x (tile 4) \<noteq> x (tile 1)"
    by (simp add: tile_def)
  have "followDeliveryPath (corridorStrategy corridorPath None 0) ?B corridor 0 0
          = (None, corridorStrategy corridorPath (Some (tile 1)) 1)"
    using followDeliveryPath_new_tile_blocked[OF path blocked, of None 0 corridor 0 0] fresh
    by (simp add: corridorStrategy_def tile_def)
  moreover have "followDeliveryPath (corridorStrategy corridorPath (Some (tile 4)) 2) ?B corridor 0 0
          = (None, corridorStrategy corridorPath (Some (tile 1)) 1)"
    using followDeliveryPath_new_tile_blocked[OF path blocked, of "Some (tile 4)" 2 corridor 0 0]
          other differs
    by (simp add: corridorStrategy_def tile_def)
  ultimately show ?thesis using path blocked fresh other differs by blast
qed

text \<open>
  Claim C8. A call of \<open>followDeliveryPath\<close> on a non-empty route whose first step is not
  blocked: when \<open>getActionToNextStep\<close> gives no action (\<open>null\<close> or another falsy value),
  the route is cleared, the block state is reset to \<open>(null, 0)\<close> and no action is
  returned; when it gives an action, the first step is removed from the route, the
  block state is reset, and a move with that action is returned.
\<close>

theorem followDeliveryPath_unblocked:
  assumes "deliveryPath s = step # rest"
      and "\<not> isBlockedByOtherAgent b (x step) (y step)"
  shows "(\<not> truthy (getActionToNextStep pf cx cy (x step) (y step)) \<longrightarrow>
            followDeliveryPath s b pf cx cy =
              (None, s\<lparr>deliveryPath := [], blockedTargetTile := None, blockedCounter := 0\<rparr>)) \<and>
         (\<forall>a. getActionToNextStep pf cx cy (x step) (y step) = Some a \<and> a \<noteq> [] \<longrightarrow>
            followDeliveryPath s b pf cx cy =
              (Some (MOVE a),
               s\<lparr>deliveryPath := tl (deliveryPath s), blockedTargetTile := None,
                  blockedCounter := 0\<rparr>))"
  using assms
  by (auto simp: followDeliveryPath_def Let_def truthy_def split: option.splits)

theorem followDeliveryPath_unblocked_witness:
  "deliveryPath (corridorStrategy corridorPath (Some (tile 1)) 2) = tile 1 # tl corridorPath \<and>
   \<not> isBlockedByOtherAgent (corridorBeliefs [parcelMine] []) (x (tile 1)) (y (tile 1)) \<and>
   getActionToNextStep corridor 0 0 (x (tile 1)) (y (tile 1)) = Some ''right'' \<and>
   \<not> truthy (getActionToNextStep corridor 3 0 (x (tile 1)) (y (tile 1))) \<and>
   followDeliveryPath (corridorStrategy corridorPath (Some (tile 1)) 2)
       (corridorBeliefs [parcelMine] []) corridor 0 0
     = (Some (MOVE ''right''), corridorStrategy (tl corridorPath) None 0) \<and>
   followDeliveryPath (corridorStrategy corridorPath (Some (tile 1)) 2)
       (corridorBeliefs [parcelMine] []) corridor 3 0
     = (None, corridorStrategy [] None 0)"
proof -
  let ?B = "corridorBeliefs [parcelMine] []"
  let ?S = "corridorStrategy corridorPath (Some (tile 1)) 2"
  have path: "deliveryPath ?S = tile 1 # tl corridorPath"
    by (simp add: corridorStrategy_def corridorPath_def)
  have free: "\<not> isBlockedByOtherAgent ?B (x (tile 1)) (y (tile 1))"
    by code_simp
  have right: "getActionToNextStep corridor 0 0 (x (tile 1)) (y (tile 1)) = Some ''right''"
    by (simp add: corridor_def tile_def)
  have none: "\<not> truthy (getActionToNextStep corridor 3 0 (x (tile 1)) (y (tile 1)))"
    by (simp add: corridor_def tile_def truthy_def)
  have "followDeliveryPath ?S ?B corridor 0 0
          = (Some (MOVE ''right''), corridorStrategy (tl corridorPath) None 0)"
    using followDeliveryPath_unblocked[OF path free, of corridor 0 0] right
    by (simp add: corridorStrategy_def corridorPath_def)
  moreover have "followDeliveryPath ?S ?B corridor 3 0 = (None, corridorStrategy [] None 0)"
    using followDeliveryPath_unblocked[OF path free, of corridor 3 0] none
    by (simp add: corridorStrategy_def)
  ultimately show ?thesis using path free right none by blast
qed

text \<open>
  Claim C10. When the agent's own id is falsy or the beliefs hold no agents collection,
  \<open>isBlockedByOtherAgent\<close> is false for every tile; \<open>followDeliveryPath\<close> then leaves
  no tile recorded and the counter at 0, and when the pathfinder gives an action for the
  first step it returns the move onto that step, whoever stands there.
\<close>

theorem unknown_id_never_blocked:
  assumes "\<not> truthy (myId b) \<or> agents b = None"
  shows "\<not> isBlockedByOtherAgent b tx ty \<and>
         blockedTargetTile (snd (followDeliveryPath s b pf cx cy)) = None \<and>
         blockedCounter (snd (followDeliveryPath s b pf cx cy)) = 0 \<and>
         (\<forall>step rest a.
            deliveryPath s = step # rest \<and>
            getActionToNextStep pf cx cy (x step) (y step) = Some a \<and> a \<noteq> [] \<longrightarrow>
            followDeliveryPath s b pf cx cy =
              (Some (MOVE a),
               s\<lparr>deliveryPath := rest, blockedTargetTile := None, blockedCounter := 0\<rparr>))"
proof -
  have nb: "\<not> isBlockedByOtherAgent b u v" for u v
    using assms by (auto simp: isBlockedByOtherAgent_def)
  show ?thesis
    using nb
    by (auto simp: followDeliveryPath_def Let_def truthy_def split: option.splits list.splits)
qed

theorem unknown_id_never_blocked_witness:
  "\<not> truthy (myId ((corridorBeliefs [parcelMine] [otherAgent])\<lparr>myId := None\<rparr>)) \<and>
   agents ((corridorBeliefs [parcelMine] [otherAgent])\<lparr>agents := None\<rparr>) = None \<and>
   \<lfloor>agent_x otherAgent\<rfloor> = x (tile 1) \<and> \<lfloor>agent_y otherAgent\<rfloor> = y (tile 1) \<and>
   deliveryPath (corridorStrategy corridorPath (Some (tile 1)) 2) = tile 1 # tl corridorPath \<and>
   getActionToNextStep corridor 0 0 (x (tile 1)) (y (tile 1)) = Some ''right'' \<and>
   followDeliveryPath (corridorStrategy corridorPath (Some (tile 1)) 2)
       ((corridorBeliefs [parcelMine] [otherAgent])\<lparr>myId := None\<rparr>) corridor 0 0
     = (Some (MOVE ''right''), corridorStrategy (tl corridorPath) None 0) \<and>
   followDeliveryPath (corridorStrategy corridorPath (Some (tile 1)) 2)
       ((corridorBeliefs [parcelMine] [otherAgent])\<lparr>agents := None\<rparr>) corridor 0 0
     = (Some (MOVE ''right''), corridorStrategy (tl corridorPath) None 0)"
proof -
  let ?B1 = "(corridorBeliefs [parcelMine] [otherAgent])\<lparr>myId := None\<rparr>"
  let ?B2 = "(corridorBeliefs [parcelMine] [otherAgent])\<lparr>agents := None\<rparr>"
  let ?S = "corridorStrategy corridorPath (Some (tile 1)) 2"
  have noid: "\<not> truthy (myId ?B1)"
    by (simp add: truthy_def)
  have noagents: "agents ?B2 = None"
    by simp
  have there: "\<lfloor>agent_x otherAgent\<rfloor> = x (tile 1)" "\<lfloor>agent_y otherAgent\<rfloor> = y (tile 1)"
    by code_simp+
  have path: "deliveryPath ?S = tile 1 # tl corridorPath"
    by (simp add: corridorStrategy_def corridorPath_def)
  have right: "getActionToNextStep corridor 0 0 (x (tile 1)) (y (tile 1)) = Some ''right''"
    by (simp add: corridor_def tile_def)
  have upd: "?S\<lparr>deliveryPath := tl corridorPath, blockedTargetTile := None, blockedCounter := 0\<rparr>
             = corridorStrategy (tl corridorPath) None 0"
    by (simp add: corridorStrategy_def)
  have "followDeliveryPath ?S ?B1 corridor 0 0
          = (Some (MOVE ''right''), corridorStrategy (tl corridorPath) None 0)"
    using unknown_id_never_blocked[of ?B1 "x (tile 1)" "y (tile 1)" ?S corridor 0 0] noid path right upd
    by simp
  moreover have "followDeliveryPath ?S ?B2 corridor 0 0
          = (Some (MOVE ''right''), corridorStrategy (tl corridorPath) None 0)"
    using unknown_id_never_blocked[of ?B2 "x (tile 1)" "y (tile 1)" ?S corridor 0 0] noagents path right upd
    by simp
  ultimately show ?thesis using noid noagents there path right by blast
qed

section \<open>The frame of the detour evaluation\<close>

lemma evaluateDetourParcels_keeps_fields:
  "\<exists>r. evaluateDetourParcels s b pf = (r, s)"
  by (simp add: evaluateDetourParcels_def Let_def split: option.splits)

text \<open>
  Claim C9. \<open>evaluateDetourParcels\<close> leaves every field of the strategy as it was, in
  particular \<open>deliveryPath\<close>, \<open>blockedTargetTile\<close>, \<open>blockedCounter\<close> and
  \<open>carriedParcels\<close>, whether it returns a parcel, returns nothing or throws.
\<close>

theorem evaluateDetourParcels_frame:
  "snd (evaluateDetourParcels s b pf) = s \<and>
   deliveryPath (snd (evaluateDetourParcels s b pf)) = deliveryPath s \<and>
   blockedTargetTile (snd (evaluateDetourParcels s b pf)) = blockedTargetTile s \<and>
   blockedCounter (snd (evaluateDetourParcels s b pf)) = blockedCounter s \<and>
   carriedParcels (snd (evaluateDetourParcels s b pf)) = carriedParcels s"
  using evaluateDetourParcels_keeps_fields[of s b pf] by auto

theorem evaluateDetourParcels_frame_witness:
  "evaluateDetourParcels (corridorStrategy corridorPath (Some (tile 1)) 2)
     (corridorBeliefs detourParcels []) corridor
     = (Inr (Some parcelA), corridorStrategy corridorPath (Some (tile 1)) 2) \<and>
   snd (evaluateDetourParcels (corridorStrategy corridorPath (Some (tile 1)) 2)
          ((corridorBeliefs detourParcels [])\<lparr>myPosition := None\<rparr>) corridor)
     = corridorStrategy corridorPath (Some (tile 1)) 2"
proof -
  let ?S = "corridorStrategy corridorPath (Some (tile 1)) 2"
  have "fst (evaluateDetourParcels ?S (corridorBeliefs detourParcels []) corridor)
          = Inr (Some parcelA)"
    by code_simp
  then have "evaluateDetourParcels ?S (corridorBeliefs detourParcels []) corridor
          = (Inr (Some parcelA), ?S)"
    using evaluateDetourParcels_frame[of ?S "corridorBeliefs detourParcels []" corridor]
    by (metis prod.collapse)
  moreover have "snd (evaluateDetourParcels ?S
        ((corridorBeliefs detourParcels [])\<lparr>myPosition := None\<rparr>) corridor) = ?S"
    using evaluateDetourParcels_frame[of ?S
            "(corridorBeliefs detourParcels [])\<lparr>myPosition := None\<rparr>" corridor]
    by simp
  ultimately show ?thesis by blast
qed

section \<open>The decision of a turn\<close>

text \<open>
  Claim C5. With a carried parcel, a known position and that position a delivery tile,
  \<open>getDeliveryAction\<close> returns \<open>PUTDOWN\<close> and clears the route, whatever the parcels, the
  route, the block state, the other agents and the pathfinder are.
\<close>

theorem putdown_on_delivery_tile:
  assumes "carriedParcels s \<noteq> []"
      and "myPosition b = Some cur"
      and "isDeliveryTile b (x cur) (y cur)"
  shows "getDeliveryAction s b pf = (Inr (Some PUTDOWN), s\<lparr>deliveryPath := []\<rparr>)"
  using assms by (simp add: getDeliveryAction_def shouldDeliver_def)

theorem putdown_on_delivery_tile_witness:
  "carriedParcels (corridorStrategy corridorPath (Some (tile 1)) 2) \<noteq> [] \<and>
   myPosition ((corridorBeliefs detourParcels [otherAgent])\<lparr>myPosition := Some (tile 5)\<rparr>)
     = Some (tile 5) \<and>
   isDeliveryTile ((corridorBeliefs detourParcels [otherAgent])\<lparr>myPosition := Some (tile 5)\<rparr>)
     (x (tile 5)) (y (tile 5)) \<and>
   getDeliveryAction (corridorStrategy corridorPath (Some (tile 1)) 2)
       ((corridorBeliefs detourParcels [otherAgent])\<lparr>myPosition := Some (tile 5)\<rparr>) corridor
     = (Inr (Some PUTDOWN), corridorStrategy [] (Some (tile 1)) 2)"
proof -
  let ?B = "(corridorBeliefs detourParcels [otherAgent])\<lparr>myPosition := Some (tile 5)\<rparr>"
  let ?S = "corridorStrategy corridorPath (Some (tile 1)) 2"
  have carried: "carriedParcels ?S \<noteq> []"
    by (simp add: corridorStrategy_def)
  have pos: "myPosition ?B = Some (tile 5)"
    by simp
  have deliv: "isDeliveryTile ?B (x (tile 5)) (y (tile 5))"
    by (simp add: corridorBeliefs_def tile_def)
  have "getDeliveryAction ?S ?B corridor = (Inr (Some PUTDOWN), corridorStrategy [] (Some (tile 1)) 2)"
    using putdown_on_delivery_tile[OF carried pos deliv, of corridor]
    by (simp add: corridorStrategy_def)
  with carried pos deliv show ?thesis by blast
qed

lemma isPathLeadingTo_last:
  "isPathLeadingTo path tx ty = (path \<noteq> [] \<and> x (last path) = tx \<and> y (last path) = ty)"
  by (simp add: isPathLeadingTo_def Let_def last_conv_nth)

lemma ensurePathTo_committedRoute:
  "ensurePathTo s pf cur tx ty = s\<lparr>deliveryPath := committedRoute s pf cur tx ty\<rparr>"
  by (simp add: ensurePathTo_def committedRoute_def isPathLeadingTo_last)

text \<open>
  Claim C7. When \<open>getDeliveryAction\<close> goes on to follow a route, to the detour parcel it
  selected and is not standing on, or else to the nearest delivery tile, the route it
  follows is \<open>committedRoute\<close>: the result of \<open>findPath\<close> from the current position to
  the target when the stored route is empty or its last step is not the target, and the
  stored route, unchanged, when its last step is the target.
\<close>

theorem route_recomputed_lazily:
  assumes "carriedParcels s \<noteq> []"
      and "myPosition b = Some cur"
      and "\<not> isDeliveryTile b (x cur) (y cur)"
      and "fst (evaluateDetourParcels s b pf) = Inr detour"
  shows "(\<forall>p. detour = Some p \<and> \<not> (x p = x cur \<and> y p = y cur) \<longrightarrow>
            getDeliveryAction s b pf =
              returned (followDeliveryPath
                          (s\<lparr>deliveryPath := committedRoute s pf cur (x p) (y p)\<rparr>)
                          b pf (x cur) (y cur))) \<and>
         (\<forall>d. detour = None \<and> getClosestDeliveryTile b (x cur) (y cur) = Some d \<longrightarrow>
            getDeliveryAction s b pf =
              returned (followDeliveryPath
                          (s\<lparr>deliveryPath := committedRoute s pf cur (x d) (y d)\<rparr>)
                          b pf (x cur) (y cur)))"
proof -
  have ev: "evaluateDetourParcels s b pf = (Inr detour, s)"
    using assms(4) evaluateDetourParcels_keeps_fields[of s b pf] by auto
  show ?thesis
    using assms(1-3)
    by (auto simp: getDeliveryAction_def shouldDeliver_def ev isAtPosition_def
                   ensurePathTo_committedRoute)
qed

theorem route_recomputed_lazily_witness:
  "carriedParcels (corridorStrategy corridorPath None 0) \<noteq> [] \<and>
   myPosition (corridorBeliefs [parcelMine] []) = Some (tile 0) \<and>
   \<not> isDeliveryTile (corridorBeliefs [parcelMine] []) (x (tile 0)) (y (tile 0)) \<and>
   fst (evaluateDetourParcels (corridorStrategy corridorPath None 0)
          (corridorBeliefs [parcelMine] []) corridor) = Inr None \<and>
   fst (evaluateDetourParcels (corridorStrategy corridorPath None 0)
          (corridorBeliefs detourParcels []) corridor) = Inr (Some parcelA) \<and>
   getClosestDeliveryTile (corridorBeliefs [parcelMine] []) (x (tile 0)) (y (tile 0)) = Some (tile 5) \<and>
   committedRoute (corridorStrategy corridorPath None 0) corridor (tile 0) (x (tile 5)) (y (tile 5))
     = corridorPath \<and>
   committedRoute (corridorStrategy corridorPath None 0) corridor (tile 0) (x parcelA) (y parcelA)
     = [tile 1] \<and>
   getDeliveryAction (corridorStrategy corridorPath None 0) (corridorBeliefs [parcelMine] []) corridor
     = (Inr (Some (MOVE ''right'')), corridorStrategy (tl corridorPath) None 0) \<and>
   getDeliveryAction (corridorStrategy corridorPath None 0) (corridorBeliefs detourParcels []) corridor
     = (Inr (Some (MOVE ''right'')), corridorStrategy [] None 0)"
proof -
  let ?B = "corridorBeliefs [parcelMine] []"
  let ?D = "corridorBeliefs detourParcels []"
  let ?S = "corridorStrategy corridorPath None 0"
  have carried: "carriedParcels ?S \<noteq> []"
    by (simp add: corridorStrategy_def)
  have pos: "myPosition (corridorBeliefs ps []) = Some (tile 0)" for ps
    by (simp add: corridorBeliefs_def)
  have away: "\<not> isDeliveryTile (corridorBeliefs ps []) (x (tile 0)) (y (tile 0))" for ps
    by (simp add: corridorBeliefs_def tile_def)
  have nodetour: "fst (evaluateDetourParcels ?S ?B corridor) = Inr None"
    by code_simp
  have detour: "fst (evaluateDetourParcels ?S ?D corridor) = Inr (Some parcelA)"
    by code_simp
  have near: "getClosestDeliveryTile ?B (x (tile 0)) (y (tile 0)) = Some (tile 5)"
    by (simp add: corridorBeliefs_def)
  have kept: "committedRoute ?S corridor (tile 0) (x (tile 5)) (y (tile 5)) = corridorPath"
    by (simp add: committedRoute_def corridorStrategy_def corridorPath_def tile_def)
  have fresh: "committedRoute ?S corridor (tile 0) (x parcelA) (y parcelA) = [tile 1]"
    by code_simp
  have notat: "\<not> (x parcelA = x (tile 0) \<and> y parcelA = y (tile 0))"
    by (simp add: parcelA_def tile_def)
  have f1: "followDeliveryPath (?S\<lparr>deliveryPath := corridorPath\<rparr>) ?B corridor (x (tile 0)) (y (tile 0))
            = (Some (MOVE ''right''), corridorStrategy (tl corridorPath) None 0)"
    by code_simp
  have f2: "followDeliveryPath (?S\<lparr>deliveryPath := [tile 1]\<rparr>) ?D corridor (x (tile 0)) (y (tile 0))
            = (Some (MOVE ''right''), corridorStrategy [] None 0)"
    by code_simp
  have "getDeliveryAction ?S ?B corridor
          = (Inr (Some (MOVE ''right'')), corridorStrategy (tl corridorPath) None 0)"
    using route_recomputed_lazily[OF carried pos away nodetour] near kept f1
    by (simp add: returned_def)
  moreover have "getDeliveryAction ?S ?D corridor
          = (Inr (Some (MOVE ''right'')), corridorStrategy [] None 0)"
    using route_recomputed_lazily[OF carried pos away detour] notat fresh f2
    by (simp add: returned_def)
  ultimately show ?thesis using carried pos away nodetour detour near kept fresh by blast
qed

text \<open>
  Claim C3 says that the block state is \<open>(null, 0)\<close> after every call that clears the
  route. The two branches of \<open>getDeliveryAction\<close> that clear it, lines 46 and 73, assign
  only \<open>deliveryPath\<close>: started with the recorded tile \<open>(1, 0)\<close> and the counter 2, the
  call on a delivery tile returns \<open>PUTDOWN\<close>, and the call with no delivery tile known
  returns no action, both with an empty route and with the tile \<open>(1, 0)\<close> and the
  counter 2 still recorded.
\<close>

theorem getDeliveryAction_clear_keeps_block_state:
  "getDeliveryAction (corridorStrategy corridorPath (Some (tile 1)) 2)
       ((corridorBeliefs [parcelMine] [otherAgent])\<lparr>myPosition := Some (tile 5)\<rparr>) corridor
     = (Inr (Some PUTDOWN), corridorStrategy [] (Some (tile 1)) 2) \<and>
   getDeliveryAction (corridorStrategy corridorPath (Some (tile 1)) 2)
       ((corridorBeliefs [parcelMine] [otherAgent])
          \<lparr>isDeliveryTile := \<lambda>tx ty. False, getClosestDeliveryTile := \<lambda>tx ty. None\<rparr>) corridor
     = (Inr None, corridorStrategy [] (Some (tile 1)) 2)"
  by (simp add: getDeliveryAction_def shouldDeliver_def evaluateDetourParcels_def
                corridorStrategy_def corridorBeliefs_def tile_def)

section \<open>Updating the carried parcels\<close>

lemma updateCarriedParcels_null_id: "myId b = None \<Longrightarrow> updateCarriedParcels s b ps = s\<lparr>carriedParcels := []\<rparr>"
  by (simp add: updateCarriedParcels_def)

lemma updateCarriedParcels_none_carried:
  "myId b = Some me \<Longrightarrow> filter (\<lambda>p. carriedBy p = Some me) ps = [] \<Longrightarrow> deliveryPath s \<noteq> [] \<Longrightarrow>
   updateCarriedParcels s b ps =
     s\<lparr>carriedParcels := [], deliveryPath := [], blockedTargetTile := None, blockedCounter := 0\<rparr>"
  unfolding updateCarriedParcels_def Let_def by simp

lemma updateCarriedParcels_still_carrying:
  "myId b = Some me \<Longrightarrow> filter (\<lambda>p. carriedBy p = Some me) ps \<noteq> [] \<or> deliveryPath s = [] \<Longrightarrow>
   updateCarriedParcels s b ps = s\<lparr>carriedParcels := filter (\<lambda>p. carriedBy p = Some me) ps\<rparr>"
  unfolding updateCarriedParcels_def Let_def by auto

text \<open>
  Claim C4, as amended. \<open>updateCarriedParcels(allParcels)\<close> with the id \<open>null\<close> empties
  \<open>carriedParcels\<close> and leaves the route and the block state as they were. With an id,
  \<open>carriedParcels\<close> becomes the parcels of \<open>allParcels\<close> carried by that id, in their
  order; when there is none and the route is not empty, the same call clears the route
  and resets the block state to \<open>(null, 0)\<close>, and otherwise the route and the block state
  are unchanged.
\<close>

theorem updateCarriedParcels_clears_when_id_known:
  "(myId b = None \<longrightarrow>
      carriedParcels (updateCarriedParcels s b allParcels) = [] \<and>
      deliveryPath (updateCarriedParcels s b allParcels) = deliveryPath s \<and>
      blockedTargetTile (updateCarriedParcels s b allParcels) = blockedTargetTile s \<and>
      blockedCounter (updateCarriedParcels s b allParcels) = blockedCounter s) \<and>
   (\<forall>me. myId b = Some me \<longrightarrow>
      carriedParcels (updateCarriedParcels s b allParcels)
        = filter (\<lambda>p. carriedBy p = Some me) allParcels \<and>
      (carriedParcels (updateCarriedParcels s b allParcels) = [] \<and> deliveryPath s \<noteq> [] \<longrightarrow>
         deliveryPath (updateCarriedParcels s b allParcels) = [] \<and>
         blockedTargetTile (updateCarriedParcels s b allParcels) = None \<and>
         blockedCounter (updateCarriedParcels s b allParcels) = 0) \<and>
      (carriedParcels (updateCarriedParcels s b allParcels) \<noteq> [] \<or> deliveryPath s = [] \<longrightarrow>
         deliveryPath (updateCarriedParcels s b allParcels) = deliveryPath s \<and>
         blockedTargetTile (updateCarriedParcels s b allParcels) = blockedTargetTile s \<and>
         blockedCounter (updateCarriedParcels s b allParcels) = blockedCounter s))"
proof (cases "myId b")
  case None
  show ?thesis
    unfolding updateCarriedParcels_null_id[OF None] using None by simp
next
  case (Some me)
  let ?mine = "filter (\<lambda>p. carriedBy p = Some me) allParcels"
  show ?thesis
  proof (cases "?mine = [] \<and> deliveryPath s \<noteq> []")
    case True
    then have "updateCarriedParcels s b allParcels =
        s\<lparr>carriedParcels := [], deliveryPath := [], blockedTargetTile := None,
           blockedCounter := 0\<rparr>"
      using True by (intro updateCarriedParcels_none_carried[OF Some]) simp_all
    then show ?thesis using Some True by simp
  next
    case False
    then have "updateCarriedParcels s b allParcels = s\<lparr>carriedParcels := ?mine\<rparr>"
      using False by (intro updateCarriedParcels_still_carrying[OF Some]) auto
    then show ?thesis using Some False by auto
  qed
qed

theorem updateCarriedParcels_clears_when_id_known_witness:
  "myId (corridorBeliefs [] []) = Some ''me'' \<and>
   myId ((corridorBeliefs [] [])\<lparr>myId := None\<rparr>) = None \<and>
   deliveryPath (corridorStrategy corridorPath (Some (tile 1)) 2) \<noteq> [] \<and>
   filter (\<lambda>p. carriedBy p = Some ''me'') [parcelA] = [] \<and>
   filter (\<lambda>p. carriedBy p = Some ''me'') [parcelA, parcelMine] = [parcelMine] \<and>
   carriedParcels (updateCarriedParcels (corridorStrategy corridorPath (Some (tile 1)) 2)
                     (corridorBeliefs [] []) [parcelA]) = [] \<and>
   deliveryPath (updateCarriedParcels (corridorStrategy corridorPath (Some (tile 1)) 2)
                   (corridorBeliefs [] []) [parcelA]) = [] \<and>
   blockedTargetTile (updateCarriedParcels (corridorStrategy corridorPath (Some (tile 1)) 2)
                        (corridorBeliefs [] []) [parcelA]) = None \<and>
   blockedCounter (updateCarriedParcels (corridorStrategy corridorPath (Some (tile 1)) 2)
                     (corridorBeliefs [] []) [parcelA]) = 0 \<and>
   carriedParcels (updateCarriedParcels (corridorStrategy corridorPath (Some (tile 1)) 2)
                     (corridorBeliefs [] []) [parcelA, parcelMine]) = [parcelMine] \<and>
   deliveryPath (updateCarriedParcels (corridorStrategy corridorPath (Some (tile 1)) 2)
                   (corridorBeliefs [] []) [parcelA, parcelMine]) = corridorPath \<and>
   carriedParcels (updateCarriedParcels (corridorStrategy corridorPath (Some (tile 1)) 2)
                     ((corridorBeliefs [] [])\<lparr>myId := None\<rparr>) [parcelA, parcelMine]) = []"
proof -
  let ?S = "corridorStrategy corridorPath (Some (tile 1)) 2"
  let ?B = "corridorBeliefs [] []"
  have me: "myId ?B = Some ''me''"
    by (simp add: corridorBeliefs_def)
  have unknown: "myId (?B\<lparr>myId := None\<rparr>) = None"
    by simp
  have path: "deliveryPath ?S = corridorPath"
    by (simp add: corridorStrategy_def)
  have nonempty: "deliveryPath ?S \<noteq> []"
    by (simp add: corridorStrategy_def corridorPath_def)
  have none: "filter (\<lambda>p. carriedBy p = Some ''me'') [parcelA] = []"
    by (simp add: parcelA_def)
  have one: "filter (\<lambda>p. carriedBy p = Some ''me'') [parcelA, parcelMine] = [parcelMine]"
    by (simp add: parcelA_def parcelMine_def)
  note A = updateCarriedParcels_clears_when_id_known
             [of ?B ?S "[parcelA]", THEN conjunct2, THEN spec, THEN mp, OF me]
  note C = updateCarriedParcels_clears_when_id_known
             [of ?B ?S "[parcelA, parcelMine]", THEN conjunct2, THEN spec, THEN mp, OF me]
  note D = updateCarriedParcels_clears_when_id_known
             [of "?B\<lparr>myId := None\<rparr>" ?S "[parcelA, parcelMine]", THEN conjunct1, THEN mp,
              OF unknown]
  have a: "carriedParcels (updateCarriedParcels ?S ?B [parcelA]) = []"
    using A[THEN conjunct1] unfolding none .
  have cleared: "deliveryPath (updateCarriedParcels ?S ?B [parcelA]) = [] \<and>
       blockedTargetTile (updateCarriedParcels ?S ?B [parcelA]) = None \<and>
       blockedCounter (updateCarriedParcels ?S ?B [parcelA]) = 0"
    by (rule A[THEN conjunct2, THEN conjunct1, THEN mp]) (rule conjI[OF a nonempty])
  have kept: "carriedParcels (updateCarriedParcels ?S ?B [parcelA, parcelMine]) = [parcelMine]"
    using C[THEN conjunct1] unfolding one .
  have kept_path: "deliveryPath (updateCarriedParcels ?S ?B [parcelA, parcelMine]) = corridorPath"
  proof -
    have "carriedParcels (updateCarriedParcels ?S ?B [parcelA, parcelMine]) \<noteq> []"
      unfolding kept by simp
    then have "deliveryPath (updateCarriedParcels ?S ?B [parcelA, parcelMine]) = deliveryPath ?S"
      using C[THEN conjunct2, THEN conjunct2, THEN mp] by (metis (no_types))
    then show ?thesis unfolding path .
  qed
  have emptied: "carriedParcels (updateCarriedParcels ?S (?B\<lparr>myId := None\<rparr>) [parcelA, parcelMine]) = []"
    by (rule D[THEN conjunct1])
  show ?thesis
    by (intro conjI me unknown nonempty none one a kept kept_path emptied
              cleared[THEN conjunct1] cleared[THEN conjunct2, THEN conjunct1]
              cleared[THEN conjunct2, THEN conjunct2])
qed

text \<open>
  The claim as written fails when the id is \<open>null\<close>: \<open>carriedParcels\<close> goes from
  non-empty to empty with a non-empty route, and the route and the block state stay.
\<close>

theorem updateCarriedParcels_unknown_id_keeps_path:
  "carriedParcels (corridorStrategy corridorPath (Some (tile 1)) 2) \<noteq> [] \<and>
   deliveryPath (corridorStrategy corridorPath (Some (tile 1)) 2) \<noteq> [] \<and>
   carriedParcels (updateCarriedParcels (corridorStrategy corridorPath (Some (tile 1)) 2)
                     ((corridorBeliefs [] [])\<lparr>myId := None\<rparr>) [parcelMine]) = [] \<and>
   deliveryPath (updateCarriedParcels (corridorStrategy corridorPath (Some (tile 1)) 2)
                   ((corridorBeliefs [] [])\<lparr>myId := None\<rparr>) [parcelMine]) = corridorPath \<and>
   blockedTargetTile (updateCarriedParcels (corridorStrategy corridorPath (Some (tile 1)) 2)
                   ((corridorBeliefs [] [])\<lparr>myId := None\<rparr>) [parcelMine]) = Some (tile 1) \<and>
   blockedCounter (updateCarriedParcels (corridorStrategy corridorPath (Some (tile 1)) 2)
                   ((corridorBeliefs [] [])\<lparr>myId := None\<rparr>) [parcelMine]) = 2"
  by (simp add: updateCarriedParcels_def corridorStrategy_def corridorPath_def)

end
